theory Spec2Isabelle
  imports Complex_Main "HOL-Library.AList"
begin

section \<open>The eco-consumption tracker (src/main.py)\<close>

text \<open>
  The program is one Python class, \<^verbatim>\<open>EcoConsumptionTracker\<close>, with one attribute
  \<^verbatim>\<open>self.data\<close>, one file \<^verbatim>\<open>consumption_data.json\<close> and the standard output.
  The embedding passes these three explicitly: every method is a function from the
  world before the call to the exception it raised (if any) and the world after it.

  What is not in the source is an input of the model:
  \<^item> the file is what \<^verbatim>\<open>open\<close> and \<^verbatim>\<open>json.load\<close> make of it (absent, a parsed
    document, text that raises \<^verbatim>\<open>JSONDecodeError\<close>, or something that raises another
    exception); \<^verbatim>\<open>json.dump\<close> followed by \<^verbatim>\<open>json.load\<close> is taken to return the
    value dumped, which is what the library does for the values of type \<open>pyval\<close>;
  \<^item> the clock (\<^verbatim>\<open>datetime.datetime.now()\<close>) is an argument of \<open>log_consumption\<close>;
  \<^item> an I/O failure of \<^verbatim>\<open>save_data\<close> is an argument saying where it struck;
  \<^item> an amount is a finite Python number, written as the real number it denotes (the
    values \<^verbatim>\<open>nan\<close> and \<^verbatim>\<open>inf\<close> are not amounts); nothing in the source computes with
    amounts except the built-in \<^verbatim>\<open>sum\<close>, whose floating-point addition is an
    argument of \<open>generate_report\<close>: the model fixes no rounding;
  \<^item> strings are byte strings, and \<^verbatim>\<open>str.capitalize\<close> is modelled on ASCII letters.
\<close>

subsection \<open>Python values, printed lines, exceptions\<close>

text \<open>
  The values \<^verbatim>\<open>json.load\<close> can return, which are also all the values
  \<^verbatim>\<open>self.data\<close> ever holds. A dict is an association list in insertion order, as
  Python iterates it.
\<close>

datatype pyval =
    PNone
  | PBool bool
  | PNum real
  | PStr string
  | PList "pyval list"
  | PDict "(string \<times> pyval) list"

text \<open>
  A printed line is the sequence of pieces of its f-string: literal text (with the
  strings substituted into it) and numbers, whose decimal rendering is left abstract.
\<close>

datatype frag = Txt string | Num real

type_synonym line = "frag list"

datatype py_error = AttributeError | TypeError | KeyError | OSError | UnicodeDecodeError

text \<open>
  What is at the path \<^verbatim>\<open>consumption_data.json\<close>, seen through \<^verbatim>\<open>open\<close> and
  \<^verbatim>\<open>json.load\<close>: \<open>None\<close> when no file is there (\<^verbatim>\<open>FileNotFoundError\<close>),
  \<open>Document v\<close> when the text parses to \<open>v\<close>, \<open>Unparseable\<close> when
  \<^verbatim>\<open>json.load\<close> raises \<^verbatim>\<open>JSONDecodeError\<close>, and \<open>Unreadable e\<close> when opening or
  reading raises another exception \<open>e\<close>: \<^verbatim>\<open>OSError\<close> for a permission error or a
  directory, \<^verbatim>\<open>UnicodeDecodeError\<close> for bytes that are not text in the encoding.
\<close>

datatype contents = Document pyval | Unparseable | Unreadable py_error

record world =
  data :: pyval
  storage :: "contents option"
  stdout :: "line list"

text \<open>
  Where an I/O error strikes \<^verbatim>\<open>save_data\<close>, with the text of the exception: in
  \<^verbatim>\<open>open\<close> (the file is untouched), in \<^verbatim>\<open>json.dump\<close> (the file was truncated by
  \<^verbatim>\<open>open\<close> and holds what was written so far), or when the \<^verbatim>\<open>with\<close> block closes
  the file (after the success message was printed). The last two carry what is left
  at the path.
\<close>

datatype io_fault =
    OpenFailed string
  | DumpFailed string contents
  | CloseFailed string contents

record datetime =
  year :: nat
  month :: nat
  day :: nat

subsection \<open>Library functions the source calls\<close>

definition print :: "line \<Rightarrow> world \<Rightarrow> world" where
  "print l w = w\<lparr>stdout := stdout w @ [l]\<rparr>"

text \<open>\<^verbatim>\<open>d.get(k)\<close>: the value at \<open>k\<close>, \<^verbatim>\<open>None\<close> when the key is missing.\<close>

definition dict_get :: "(string \<times> pyval) list \<Rightarrow> string \<Rightarrow> pyval" where
  "dict_get kvs k = (case map_of kvs k of None \<Rightarrow> PNone | Some v \<Rightarrow> v)"

definition upper_char :: "char \<Rightarrow> char" where
  "upper_char c =
     (let n = (of_char c :: nat) in if 97 \<le> n \<and> n \<le> 122 then char_of (n - 32) else c)"

definition lower_char :: "char \<Rightarrow> char" where
  "lower_char c =
     (let n = (of_char c :: nat) in if 65 \<le> n \<and> n \<le> 90 then char_of (n + 32) else c)"

text \<open>\<^verbatim>\<open>str.capitalize()\<close>: the first character in upper case, the rest in lower case.\<close>

fun capitalize :: "string \<Rightarrow> string" where
  "capitalize [] = []"
| "capitalize (c # cs) = upper_char c # map lower_char cs"

definition digit :: "nat \<Rightarrow> char" where
  "digit n = char_of (48 + n mod 10)"

text \<open>
  \<^verbatim>\<open>strftime('%Y-%m-%d')\<close>: the year on four digits, the month and the day on two,
  each padded with zeros. (For a year below 1000 some C libraries do not pad; the clock
  of a running program is past that.)
\<close>

definition strftime_Ymd :: "datetime \<Rightarrow> string" where
  "strftime_Ymd t =
     [digit (year t div 1000), digit (year t div 100), digit (year t div 10), digit (year t)]
     @ ''-'' @ [digit (month t div 10), digit (month t)]
     @ ''-'' @ [digit (day t div 10), digit (day t)]"

text \<open>
  Iterating a value, as the generator in \<^verbatim>\<open>generate_report\<close> does: a list gives its
  elements, a dict its keys, a string its characters; nothing else is iterable.
\<close>

fun py_iter :: "pyval \<Rightarrow> py_error + pyval list" where
  "py_iter (PList xs) = Inr xs"
| "py_iter (PDict kvs) = Inr (map (\<lambda>kv. PStr (fst kv)) kvs)"
| "py_iter (PStr s) = Inr (map (\<lambda>c. PStr [c]) s)"
| "py_iter _ = Inl TypeError"

text \<open>\<^verbatim>\<open>record['amount']\<close>: only a dict can be indexed by a string.\<close>

fun getitem_amount :: "pyval \<Rightarrow> py_error + pyval" where
  "getitem_amount (PDict kvs) =
     (case map_of kvs ''amount'' of None \<Rightarrow> Inl KeyError | Some v \<Rightarrow> Inr v)"
| "getitem_amount _ = Inl TypeError"

text \<open>
  What \<^verbatim>\<open>sum\<close> can add to its running total: a number, or a bool, which counts as
  0 or 1; anything else raises \<^verbatim>\<open>TypeError\<close>.
\<close>

fun numeric :: "pyval \<Rightarrow> py_error + real" where
  "numeric (PNum a) = Inr a"
| "numeric (PBool b) = Inr (of_bool b)"
| "numeric _ = Inl TypeError"

text \<open>
  The generator \<^verbatim>\<open>record['amount'] for record in records\<close> as \<^verbatim>\<open>sum\<close> consumes it:
  record by record, the amount is fetched and then added, so the first record whose
  amount cannot be fetched or cannot be added ends the run with its exception.
\<close>

fun amounts_of :: "pyval list \<Rightarrow> py_error + real list" where
  "amounts_of [] = Inr []"
| "amounts_of (r # rs) =
     (case getitem_amount r of
        Inl e \<Rightarrow> Inl e
      | Inr v \<Rightarrow>
          (case numeric v of
             Inl e \<Rightarrow> Inl e
           | Inr a \<Rightarrow> (case amounts_of rs of Inl e \<Rightarrow> Inl e | Inr as \<Rightarrow> Inr (a # as))))"

text \<open>
  The built-in \<^verbatim>\<open>sum\<close> of numbers. With nothing to add it returns its start value,
  the integer 0. Otherwise the result is the interpreter's: it adds Python floats with
  their rounding (in an order and with a compensation that depend on the version), so
  it is the argument \<open>float_sum\<close>, a function of the numbers in their order, of which
  the model assumes nothing. (A sum that overflows is \<^verbatim>\<open>inf\<close> or \<^verbatim>\<open>-inf\<close> in
  Python; \<open>float_sum\<close> then stands for a number above, or below, every threshold.)
\<close>

definition py_sum :: "(real list \<Rightarrow> real) \<Rightarrow> real list \<Rightarrow> real" where
  "py_sum float_sum xs = (if xs = [] then 0 else float_sum xs)"

text \<open>\<^verbatim>\<open>sum(record['amount'] for record in records)\<close>.\<close>

definition sum_amounts :: "(real list \<Rightarrow> real) \<Rightarrow> pyval \<Rightarrow> py_error + real" where
  "sum_amounts float_sum records =
     (case py_iter records of
        Inl e \<Rightarrow> Inl e
      | Inr rs \<Rightarrow>
          (case amounts_of rs of Inl e \<Rightarrow> Inl e | Inr xs \<Rightarrow> Inr (py_sum float_sum xs)))"

subsection \<open>The methods of EcoConsumptionTracker\<close>

definition initial_data :: pyval where
  "initial_data =
     PDict [(''energy'', PList []), (''water'', PList []), (''waste'', PList [])]"

text \<open>
  \<^verbatim>\<open>load_data\<close>: a parsed document replaces \<^verbatim>\<open>self.data\<close>; the two handlers
  only print; any other exception leaves the method.
\<close>

definition load_data :: "world \<Rightarrow> py_error option \<times> world" where
  "load_data w =
     (case storage w of
        Some (Document v) \<Rightarrow>
          (None, print [Txt ''Data loaded successfully.''] (w\<lparr>data := v\<rparr>))
      | None \<Rightarrow>
          (None, print [Txt ''No existing data found, starting with an empty dataset.''] w)
      | Some Unparseable \<Rightarrow>
          (None, print [Txt ''Error decoding JSON file, starting with an empty dataset.''] w)
      | Some (Unreadable e) \<Rightarrow> (Some e, w))"

text \<open>\<^verbatim>\<open>__init__\<close>: a new object, whose \<^verbatim>\<open>data\<close> is set before \<^verbatim>\<open>load_data\<close> runs.\<close>

definition init :: "world \<Rightarrow> py_error option \<times> world" where
  "init w = load_data (w\<lparr>data := initial_data\<rparr>)"

text \<open>
  \<^verbatim>\<open>save_data\<close>: \<open>None\<close> is a run without an I/O error. \<^verbatim>\<open>IOError\<close> is
  \<^verbatim>\<open>OSError\<close>, so the handler catches every failure of the three steps.
\<close>

definition save_error :: "string \<Rightarrow> line" where
  "save_error detail = [Txt (''An error occurred while saving data: '' @ detail)]"

definition save_data :: "io_fault option \<Rightarrow> world \<Rightarrow> py_error option \<times> world" where
  "save_data fault w =
     (case fault of
        None \<Rightarrow>
          (None, print [Txt ''Data saved successfully.'']
                   (w\<lparr>storage := Some (Document (data w))\<rparr>))
      | Some (OpenFailed detail) \<Rightarrow> (None, print (save_error detail) w)
      | Some (DumpFailed detail left) \<Rightarrow>
          (None, print (save_error detail) (w\<lparr>storage := Some left\<rparr>))
      | Some (CloseFailed detail left) \<Rightarrow>
          (None, print (save_error detail)
                   (print [Txt ''Data saved successfully.''] (w\<lparr>storage := Some left\<rparr>))))"

definition resource_entry :: "datetime \<Rightarrow> real \<Rightarrow> pyval" where
  "resource_entry now amount =
     PDict [(''date'', PStr (strftime_Ymd now)), (''amount'', PNum amount)]"

text \<open>
  \<^verbatim>\<open>log_consumption\<close>: \<^verbatim>\<open>self.data.get\<close> exists only on a dict, \<^verbatim>\<open>append\<close> only
  on a list. The list is changed in place, so the dict keeps its keys and their order.
  No two keys share a list (the lists of \<^verbatim>\<open>__init__\<close> and of \<^verbatim>\<open>json.load\<close> are all
  distinct objects), so the change is visible under the one key only.
\<close>

definition log_consumption ::
  "datetime \<Rightarrow> string \<Rightarrow> real \<Rightarrow> world \<Rightarrow> py_error option \<times> world" where
  "log_consumption now resource_type amount w =
     (case data w of
        PDict kvs \<Rightarrow>
          (let resource_data = dict_get kvs resource_type in
           if resource_data \<noteq> PNone then
             (case resource_data of
                PList entries \<Rightarrow>
                  (None,
                   print [Txt (capitalize resource_type @ '' consumption logged: ''), Num amount]
                     (w\<lparr>data := PDict (AList.update resource_type
                           (PList (entries @ [resource_entry now amount])) kvs)\<rparr>))
              | _ \<Rightarrow> (Some AttributeError, w))
           else
             (None, print [Txt (''Resource type '' @ [CHR 0x27] @ resource_type @ [CHR 0x27]
                                @ '' is not recognized.'')] w))
      | _ \<Rightarrow> (Some AttributeError, w))"

definition recommendations :: "(string \<times> string) list" where
  "recommendations =
     [(''energy'', ''Consider using energy-efficient appliances or LED lighting.''),
      (''water'', ''Consider shorter showers or fixing leaks.''),
      (''waste'', ''Improve recycling efforts or compost organic waste.'')]"

definition provide_recommendations :: "string \<Rightarrow> real \<Rightarrow> world \<Rightarrow> py_error option \<times> world" where
  "provide_recommendations resource_type tot w =
     (if tot > 100 then
        (None, print [Txt (''Recommendation for '' @ resource_type @ '': '' @
                 (case map_of recommendations resource_type of
                    None \<Rightarrow> ''No recommendation available.''
                  | Some advice \<Rightarrow> advice))] w)
      else
        (None, print [Txt (capitalize resource_type
                           @ '' consumption is within acceptable limits.'')] w))"

text \<open>
  The body of the \<^verbatim>\<open>for\<close> loop of \<^verbatim>\<open>generate_report\<close>, over the dict's items.
  (The source's variable \<^verbatim>\<open>total\<close> is written \<open>tot\<close>: HOL has a constant of that
  name.)
\<close>

fun report_items ::
  "(real list \<Rightarrow> real) \<Rightarrow> (string \<times> pyval) list \<Rightarrow> world \<Rightarrow> py_error option \<times> world" where
  "report_items float_sum [] w = (None, w)"
| "report_items float_sum ((resource_type, records) # rest) w =
     (case sum_amounts float_sum records of
        Inl e \<Rightarrow> (Some e, w)
      | Inr tot \<Rightarrow>
          (case provide_recommendations resource_type tot
                  (print [Txt (capitalize resource_type @ '': Total consumption = ''), Num tot] w) of
             (Some e, w') \<Rightarrow> (Some e, w')
           | (None, w') \<Rightarrow> report_items float_sum rest w'))"

definition generate_report :: "(real list \<Rightarrow> real) \<Rightarrow> world \<Rightarrow> py_error option \<times> world" where
  "generate_report float_sum w =
     (let w1 = print [Txt ([CHR 0x0A] @ ''--- Consumption Report ---'')] w in
      case data w1 of
        PDict kvs \<Rightarrow> report_items float_sum kvs w1
      | _ \<Rightarrow> (Some AttributeError, w1))"

subsection \<open>Sequences of calls\<close>

text \<open>
  A caller's sequence of \<^verbatim>\<open>log_consumption\<close> calls, each with the clock's reading at
  the call; an exception ends the sequence, as it would end the caller.
\<close>

fun log_all :: "(datetime \<times> string \<times> real) list \<Rightarrow> world \<Rightarrow> py_error option \<times> world" where
  "log_all [] w = (None, w)"
| "log_all ((now, resource_type, amount) # calls) w =
     (case log_consumption now resource_type amount w of
        (Some e, w') \<Rightarrow> (Some e, w')
      | (None, w') \<Rightarrow> log_all calls w')"

subsection \<open>Observations used to state the properties\<close>

text \<open>The keys of \<^verbatim>\<open>self.data\<close> in iteration order, and the value under a key.\<close>

definition categories :: "world \<Rightarrow> string list" where
  "categories w = (case data w of PDict kvs \<Rightarrow> map fst kvs | _ \<Rightarrow> [])"

definition lookup :: "world \<Rightarrow> string \<Rightarrow> pyval option" where
  "lookup w k = (case data w of PDict kvs \<Rightarrow> map_of kvs k | _ \<Rightarrow> None)"

text \<open>The length of a category's sequence, when the key holds a list.\<close>

definition seq_length :: "world \<Rightarrow> string \<Rightarrow> nat option" where
  "seq_length w k = (case lookup w k of Some (PList entries) \<Rightarrow> Some (length entries) | _ \<Rightarrow> None)"

text \<open>
  A Dataset of the specification, a list of categories each with its (date, amount)
  records, as the Python value that represents it.
\<close>

definition entry_val :: "string \<times> real \<Rightarrow> pyval" where
  "entry_val e = PDict [(''date'', PStr (fst e)), (''amount'', PNum (snd e))]"

definition dataset_val :: "(string \<times> (string \<times> real) list) list \<Rightarrow> pyval" where
  "dataset_val ds = PDict (map (\<lambda>kv. (fst kv, PList (map entry_val (snd kv)))) ds)"

text \<open>The records a sequence of calls asks to append to one category.\<close>

definition entries_for :: "string \<Rightarrow> (datetime \<times> string \<times> real) list \<Rightarrow> (string \<times> real) list" where
  "entries_for c calls =
     map (\<lambda>call. (strftime_Ymd (fst call), snd (snd call)))
       (filter (\<lambda>call. fst (snd call) = c) calls)"

text \<open>The text of the exception an I/O fault raises (\<^verbatim>\<open>{e}\<close> in the handler).\<close>

primrec fault_detail :: "io_fault \<Rightarrow> string" where
  "fault_detail (OpenFailed detail) = detail"
| "fault_detail (DumpFailed detail left) = detail"
| "fault_detail (CloseFailed detail left) = detail"

text \<open>
  The date format \<^verbatim>\<open>YYYY-MM-DD\<close>: ten characters, hyphens at positions 4 and 7,
  decimal digits elsewhere; and the number a string of decimal digits denotes.
\<close>

definition is_digit :: "char \<Rightarrow> bool" where
  "is_digit c = (48 \<le> (of_char c :: nat) \<and> (of_char c :: nat) \<le> 57)"

definition is_Ymd :: "string \<Rightarrow> bool" where
  "is_Ymd s =
     (length s = 10 \<and> s ! 4 = CHR ''-'' \<and> s ! 7 = CHR ''-'' \<and>
      list_all is_digit (take 4 s @ take 2 (drop 5 s) @ take 2 (drop 8 s)))"

definition decimal :: "string \<Rightarrow> nat" where
  "decimal s = foldl (\<lambda>n c. 10 * n + (of_char c - 48)) 0 s"

text \<open>A date the clock can return, with a year of four digits.\<close>

definition valid_now :: "datetime \<Rightarrow> bool" where
  "valid_now t =
     (1000 \<le> year t \<and> year t \<le> 9999 \<and> 1 \<le> month t \<and> month t \<le> 12 \<and>
      1 \<le> day t \<and> day t \<le> 31)"

text \<open>
  The totals of the specification: for each category of a Dataset, in its order, the
  sum of the amounts of its records in their order, as Python sums numbers. The report
  that goes with a list of totals has, for each, the line with the total and then what
  \<^verbatim>\<open>provide_recommendations\<close> prints for it (\<open>printed\<close>: the lines a call adds to
  an empty output).
\<close>

definition spec_totals ::
  "(real list \<Rightarrow> real) \<Rightarrow> (string \<times> (string \<times> real) list) list \<Rightarrow> (string \<times> real) list" where
  "spec_totals float_sum ds = map (\<lambda>kv. (fst kv, py_sum float_sum (map snd (snd kv)))) ds"

definition printed :: "(world \<Rightarrow> py_error option \<times> world) \<Rightarrow> line list" where
  "printed call = stdout (snd (call \<lparr>data = PNone, storage = None, stdout = []\<rparr>))"

definition report_of_totals :: "(string \<times> real) list \<Rightarrow> line list" where
  "report_of_totals ts =
     concat (map (\<lambda>kt. [Txt (capitalize (fst kt) @ '': Total consumption = ''), Num (snd kt)]
                          # printed (provide_recommendations (fst kt) (snd kt))) ts)"

section \<open>Properties\<close>

subsection \<open>Auxiliary facts\<close>

lemma provide_recommendations_returns:
  "fst (provide_recommendations c t w) = None"
  by (simp add: provide_recommendations_def)

lemmas char_eval = upper_char_def lower_char_def digit_def char_of_def bit_0

lemma capitalize_fixed:
  "capitalize ''energy'' = ''Energy''"
  "capitalize ''water'' = ''Water''"
  "capitalize ''waste'' = ''Waste''"
  by (simp_all add: char_eval)

lemma initial_data_dataset:
  "initial_data = dataset_val [(''energy'', []), (''water'', []), (''waste'', [])]"
  by (simp add: initial_data_def dataset_val_def)

lemma log_consumption_three:
  assumes "data w = dataset_val [(''energy'', e), (''water'', wa), (''waste'', ws)]"
  shows "fst (log_consumption now c a w) = None"
    and "storage (snd (log_consumption now c a w)) = storage w"
    and "data (snd (log_consumption now c a w)) =
           dataset_val [(''energy'', e @ entries_for ''energy'' [(now, c, a)]),
                        (''water'', wa @ entries_for ''water'' [(now, c, a)]),
                        (''waste'', ws @ entries_for ''waste'' [(now, c, a)])]"
  using assms
  by (auto simp: log_consumption_def dataset_val_def dict_get_def print_def entries_for_def
      resource_entry_def entry_val_def)

lemma entries_for_Cons:
  "entries_for c (call # calls) = entries_for c [call] @ entries_for c calls"
  by (simp add: entries_for_def)

lemma log_all_three:
  "data w = dataset_val [(''energy'', e), (''water'', wa), (''waste'', ws)] \<Longrightarrow>
   fst (log_all calls w) = None \<and>
   storage (snd (log_all calls w)) = storage w \<and>
   data (snd (log_all calls w)) =
     dataset_val [(''energy'', e @ entries_for ''energy'' calls),
                  (''water'', wa @ entries_for ''water'' calls),
                  (''waste'', ws @ entries_for ''waste'' calls)]"
proof (induction calls arbitrary: w e wa ws)
  case Nil
  then show ?case by (simp add: entries_for_def)
next
  case (Cons call calls)
  obtain now c a where call: "call = (now, c, a)" by (cases call) auto
  obtain r w' where step: "log_consumption now c a w = (r, w')" by (cases "log_consumption now c a w") auto
  from log_consumption_three [OF Cons.prems, of now c a] step
  have r: "r = None" and st: "storage w' = storage w"
    and d: "data w' = dataset_val [(''energy'', e @ entries_for ''energy'' [call]),
                        (''water'', wa @ entries_for ''water'' [call]),
                        (''waste'', ws @ entries_for ''waste'' [call])]"
    by (simp_all add: call)
  from Cons.IH [OF d] r st step show ?case
    by (simp add: call entries_for_Cons [of _ "(now, c, a)" calls])
qed

subsection \<open>C4: the threshold of provide_recommendations\<close>

text \<open>
  Claim C4. For each of the three fixed categories, \<^verbatim>\<open>provide_recommendations\<close>
  prints the within-acceptable-limits line when the total is at most 100 and the line
  with the category's canned advice when the total is above 100; for a category outside
  the three-entry table and a total above 100 it prints the generic
  no-recommendation-available line. It raises nothing and changes neither
  \<^verbatim>\<open>self.data\<close> nor the file: its only effect is the printed line.
\<close>

theorem recommend_threshold:
  "(t \<le> 100 \<longrightarrow>
      provide_recommendations ''energy'' t w =
        (None, print [Txt ''Energy consumption is within acceptable limits.''] w) \<and>
      provide_recommendations ''water'' t w =
        (None, print [Txt ''Water consumption is within acceptable limits.''] w) \<and>
      provide_recommendations ''waste'' t w =
        (None, print [Txt ''Waste consumption is within acceptable limits.''] w)) \<and>
   (100 < t \<longrightarrow>
      provide_recommendations ''energy'' t w =
        (None, print [Txt (''Recommendation for energy: '' @
           ''Consider using energy-efficient appliances or LED lighting.'')] w) \<and>
      provide_recommendations ''water'' t w =
        (None, print [Txt (''Recommendation for water: '' @
           ''Consider shorter showers or fixing leaks.'')] w) \<and>
      provide_recommendations ''waste'' t w =
        (None, print [Txt (''Recommendation for waste: '' @
           ''Improve recycling efforts or compost organic waste.'')] w)) \<and>
   (100 < t \<and> c \<notin> {''energy'', ''water'', ''waste''} \<longrightarrow>
      provide_recommendations c t w =
        (None, print [Txt (''Recommendation for '' @ c @ '': No recommendation available.'')] w)) \<and>
   fst (provide_recommendations c t w) = None \<and>
   data (snd (provide_recommendations c t w)) = data w \<and>
   storage (snd (provide_recommendations c t w)) = storage w \<and>
   length (stdout (snd (provide_recommendations c t w))) = Suc (length (stdout w))"
proof -
  have low: "t \<le> 100 \<Longrightarrow> \<not> 100 < t" by simp
  have unknown: "c \<notin> {''energy'', ''water'', ''waste''} \<Longrightarrow> map_of recommendations c = None"
    by (simp add: recommendations_def)
  show ?thesis
    by (simp add: provide_recommendations_def char_eval recommendations_def print_def
        low unknown [unfolded recommendations_def])
qed

theorem recommend_threshold_witness:
  "provide_recommendations ''energy'' 100 \<lparr>data = initial_data, storage = None, stdout = []\<rparr> =
     (None, \<lparr>data = initial_data, storage = None,
             stdout = [[Txt ''Energy consumption is within acceptable limits.'']]\<rparr>) \<and>
   provide_recommendations ''water'' 110 \<lparr>data = initial_data, storage = None, stdout = []\<rparr> =
     (None, \<lparr>data = initial_data, storage = None,
             stdout = [[Txt ''Recommendation for water: Consider shorter showers or fixing leaks.'']]\<rparr>) \<and>
   provide_recommendations ''gas'' 110 \<lparr>data = initial_data, storage = None, stdout = []\<rparr> =
     (None, \<lparr>data = initial_data, storage = None,
             stdout = [[Txt ''Recommendation for gas: No recommendation available.'']]\<rparr>)"
  using recommend_threshold [of 100 "\<lparr>data = initial_data, storage = None, stdout = []\<rparr>" "''gas''"]
    recommend_threshold [of 110 "\<lparr>data = initial_data, storage = None, stdout = []\<rparr>" "''gas''"]
  by (simp add: print_def)

subsection \<open>What a call of log_consumption changes\<close>

lemma log_consumption_categories:
  "categories (snd (log_consumption now c a w)) = categories w"
proof (cases "data w")
  case (PDict kvs)
  show ?thesis
  proof (cases "map_of kvs c")
    case None
    with PDict show ?thesis
      by (simp add: log_consumption_def dict_get_def categories_def print_def)
  next
    case (Some v)
    then have "c \<in> fst ` set kvs" by (metis domI dom_map_of_conv_image_fst)
    with PDict Some show ?thesis
      by (cases v) (simp_all add: log_consumption_def dict_get_def categories_def print_def
          update_keys)
  qed
qed (simp_all add: log_consumption_def categories_def)

lemma log_consumption_other_key:
  "k \<noteq> c \<Longrightarrow> lookup (snd (log_consumption now c a w)) k = lookup w k"
proof (cases "data w")
  case (PDict kvs)
  assume "k \<noteq> c"
  with PDict show ?thesis
    by (cases "dict_get kvs c")
      (simp_all add: log_consumption_def lookup_def print_def update_conv')
qed (simp_all add: log_consumption_def lookup_def)

lemma log_consumption_storage:
  "storage (snd (log_consumption now c a w)) = storage w"
proof (cases "data w")
  case (PDict kvs)
  then show ?thesis
    by (cases "dict_get kvs c") (simp_all add: log_consumption_def print_def)
qed (simp_all add: log_consumption_def)

lemma log_consumption_present:
  assumes "data w = PDict kvs" and "map_of kvs c = Some (PList entries)"
  shows "log_consumption now c a w =
           (None, print [Txt (capitalize c @ '' consumption logged: ''), Num a]
                    (w\<lparr>data := PDict (AList.update c
                          (PList (entries @ [resource_entry now a])) kvs)\<rparr>))"
  using assms by (simp add: log_consumption_def dict_get_def)

lemma of_char_digit: "(of_char (digit n) :: nat) = 48 + n mod 10"
proof -
  have "(48 + n mod 10) mod 256 = 48 + n mod 10" by simp
  then show ?thesis by (simp add: digit_def)
qed

lemma is_digit_digit: "is_digit (digit n)"
  by (simp add: is_digit_def of_char_digit)

lemma is_Ymd_strftime: "is_Ymd (strftime_Ymd t)"
  by (simp add: is_Ymd_def strftime_Ymd_def is_digit_digit)

lemma four_digits:
  fixes y :: nat
  shows "1000 * (y div 1000) + 100 * (y div 100 mod 10) + 10 * (y div 10 mod 10) + y mod 10 = y"
proof -
  have a: "y div 100 = y div 10 div 10" and b: "y div 1000 = y div 10 div 10 div 10"
    by (simp_all add: div_mult2_eq)
  define q where "q = y div 10"
  define r where "r = q div 10"
  have 1: "y = 10 * q + y mod 10" by (simp add: q_def)
  have 2: "q = 10 * r + q mod 10" by (simp add: r_def)
  have 3: "r = 10 * (r div 10) + r mod 10" by simp
  have "1000 * (r div 10) + 100 * (r mod 10) + 10 * (q mod 10) + y mod 10 = y"
    using 1 2 3 by linarith
  then show ?thesis by (simp add: a b q_def r_def)
qed

lemma decimal_strftime:
  assumes "year t < 10000" and "month t < 100" and "day t < 100"
  shows "decimal (take 4 (strftime_Ymd t)) = year t"
    and "decimal (take 2 (drop 5 (strftime_Ymd t))) = month t"
    and "decimal (take 2 (drop 8 (strftime_Ymd t))) = day t"
  using assms by (simp_all add: decimal_def strftime_Ymd_def of_char_digit four_digits)

subsection \<open>C7: a category that is not a key\<close>

text \<open>
  Claim C7. Whatever the Dataset holds, when the category is not one of its keys
  \<^verbatim>\<open>log_consumption\<close> appends nothing and raises nothing: it returns normally, the
  Dataset and the file are as before, and the one line it prints says that the
  resource type is not recognized.
\<close>

theorem unknown_category_ignored:
  assumes "data w = PDict kvs" and "c \<notin> set (map fst kvs)"
  shows "log_consumption now c a w =
           (None, w\<lparr>stdout := stdout w @
              [[Txt (''Resource type '' @ [CHR 0x27] @ c @ [CHR 0x27] @ '' is not recognized.'')]]\<rparr>) \<and>
         fst (log_consumption now c a w) = None \<and>
         data (snd (log_consumption now c a w)) = data w \<and>
         storage (snd (log_consumption now c a w)) = storage w"
proof -
  from assms(2) have "map_of kvs c = None"
    by (simp add: map_of_eq_None_iff)
  with assms(1) show ?thesis
    by (simp add: log_consumption_def dict_get_def print_def)
qed

theorem unknown_category_ignored_witness:
  "log_consumption \<lparr>year = 2024, month = 5, day = 17\<rparr> ''gas'' 5
     \<lparr>data = initial_data, storage = None, stdout = []\<rparr> =
     (None, \<lparr>data = initial_data, storage = None,
             stdout = [[Txt (''Resource type '' @ [CHR 0x27] @ ''gas'' @ [CHR 0x27]
                            @ '' is not recognized.'')]]\<rparr>)"
  using unknown_category_ignored [of "\<lparr>data = initial_data, storage = None, stdout = []\<rparr>"
      "[(''energy'', PList []), (''water'', PList []), (''waste'', PList [])]" "''gas''"
      "\<lparr>year = 2024, month = 5, day = 17\<rparr>" 5]
  by (simp add: initial_data_def)

subsection \<open>C8: a category that is a key\<close>

text \<open>
  Claim C8. When the category is a key of the Dataset holding a sequence, and for
  every amount (negative ones included: the amount is not examined),
  \<^verbatim>\<open>log_consumption\<close> returns normally and the category's sequence is the old one
  followed by exactly one new record, whose amount is the given one and whose date is
  the clock's date as \<^verbatim>\<open>YYYY-MM-DD\<close>: ten characters, hyphens at positions 4 and 7,
  digits elsewhere, which read back as the clock's year, month and day.
\<close>

theorem record_appends_one:
  assumes "data w = PDict kvs" and "map_of kvs c = Some (PList entries)"
  shows "fst (log_consumption now c a w) = None \<and>
         lookup (snd (log_consumption now c a w)) c =
           Some (PList (entries @
             [PDict [(''date'', PStr (strftime_Ymd now)), (''amount'', PNum a)]])) \<and>
         is_Ymd (strftime_Ymd now) \<and>
         (valid_now now \<longrightarrow>
            decimal (take 4 (strftime_Ymd now)) = year now \<and>
            decimal (take 2 (drop 5 (strftime_Ymd now))) = month now \<and>
            decimal (take 2 (drop 8 (strftime_Ymd now))) = day now)"
proof -
  have "lookup (snd (log_consumption now c a w)) c =
          Some (PList (entries @ [resource_entry now a]))"
    by (simp add: log_consumption_present [OF assms] lookup_def print_def update_conv')
  moreover have "valid_now now \<Longrightarrow> year now < 10000 \<and> month now < 100 \<and> day now < 100"
    by (simp add: valid_now_def)
  ultimately show ?thesis
    by (simp add: log_consumption_present [OF assms] resource_entry_def is_Ymd_strftime
        decimal_strftime)
qed

theorem record_appends_one_witness:
  "lookup (snd (log_consumption \<lparr>year = 2024, month = 5, day = 17\<rparr> ''water'' (-3)
     \<lparr>data = initial_data, storage = None, stdout = []\<rparr>)) ''water'' =
     Some (PList [PDict [(''date'', PStr ''2024-05-17''), (''amount'', PNum (-3))]]) \<and>
   decimal ''2024'' = 2024 \<and> decimal ''05'' = 5 \<and> decimal ''17'' = 17"
  using record_appends_one [of "\<lparr>data = initial_data, storage = None, stdout = []\<rparr>"
      "[(''energy'', PList []), (''water'', PList []), (''waste'', PList [])]" "''water''" "[]"
      "\<lparr>year = 2024, month = 5, day = 17\<rparr>" "-3"]
  by (simp add: initial_data_def valid_now_def strftime_Ymd_def char_eval)

subsection \<open>C10: the other categories\<close>

text \<open>
  Claim C10. A successful \<^verbatim>\<open>log_consumption\<close> (the category is a key holding a
  sequence) leaves the value under every other key as it was, and the keys and their
  order as they were; the sequence of the named category is the only thing in the
  Dataset that changes.
\<close>

theorem record_frame:
  assumes "data w = PDict kvs" and "map_of kvs c = Some (PList entries)" and "k \<noteq> c"
  shows "fst (log_consumption now c a w) = None \<and>
         lookup (snd (log_consumption now c a w)) k = lookup w k \<and>
         categories (snd (log_consumption now c a w)) = categories w \<and>
         storage (snd (log_consumption now c a w)) = storage w \<and>
         lookup (snd (log_consumption now c a w)) c \<noteq> lookup w c"
proof -
  have "lookup (snd (log_consumption now c a w)) c =
          Some (PList (entries @ [resource_entry now a]))"
    by (simp add: log_consumption_present [OF assms(1,2)] lookup_def print_def update_conv')
  moreover have "lookup w c = Some (PList entries)"
    using assms(1,2) by (simp add: lookup_def)
  ultimately have changed: "lookup (snd (log_consumption now c a w)) c \<noteq> lookup w c"
    by simp
  have returns: "fst (log_consumption now c a w) = None"
    by (simp add: log_consumption_present [OF assms(1,2)])
  from changed returns assms(3) show ?thesis
    by (simp add: log_consumption_other_key log_consumption_categories
        log_consumption_storage)
qed

theorem record_frame_witness:
  "lookup (snd (log_consumption \<lparr>year = 2024, month = 5, day = 17\<rparr> ''water'' 12
     \<lparr>data = initial_data, storage = None, stdout = []\<rparr>)) ''energy'' = Some (PList []) \<and>
   categories (snd (log_consumption \<lparr>year = 2024, month = 5, day = 17\<rparr> ''water'' 12
     \<lparr>data = initial_data, storage = None, stdout = []\<rparr>)) = [''energy'', ''water'', ''waste'']"
  using record_frame [of "\<lparr>data = initial_data, storage = None, stdout = []\<rparr>"
      "[(''energy'', PList []), (''water'', PList []), (''waste'', PList [])]" "''water''" "[]"
      "''energy''" "\<lparr>year = 2024, month = 5, day = 17\<rparr>" 12]
  by (simp add: initial_data_def lookup_def categories_def)

subsection \<open>C9: an I/O failure in save_data\<close>

text \<open>
  Claim C9. When an I/O error strikes \<^verbatim>\<open>save_data\<close>, wherever it strikes, the
  method still returns normally (the handler catches the error), \<^verbatim>\<open>self.data\<close> is
  unchanged, and what is printed ends with one line carrying the text of the error.
  There is one attempt only: the output holds that single diagnostic (after the
  success message when the error came from closing the file), and the file is as the
  failed attempt left it.
\<close>

theorem save_failure_caught:
  "fst (save_data (Some f) w) = None \<and>
   data (snd (save_data (Some f) w)) = data w \<and>
   stdout (snd (save_data (Some f) w)) =
     stdout w
     @ (case f of CloseFailed detail left \<Rightarrow> [[Txt ''Data saved successfully.'']] | _ \<Rightarrow> [])
     @ [[Txt (''An error occurred while saving data: '' @ fault_detail f)]] \<and>
   storage (snd (save_data (Some f) w)) =
     (case f of OpenFailed detail \<Rightarrow> storage w
              | DumpFailed detail left \<Rightarrow> Some left
              | CloseFailed detail left \<Rightarrow> Some left)"
proof (cases f)
  case (OpenFailed detail)
  then show ?thesis by (simp add: save_data_def print_def save_error_def)
next
  case (DumpFailed detail left)
  then show ?thesis by (simp add: save_data_def print_def save_error_def)
next
  case (CloseFailed detail left)
  then show ?thesis by (simp add: save_data_def print_def save_error_def)
qed

theorem save_failure_caught_witness:
  "save_data (Some (OpenFailed ''[Errno 13] Permission denied''))
     \<lparr>data = initial_data, storage = Some Unparseable, stdout = []\<rparr> =
   (None, \<lparr>data = initial_data, storage = Some Unparseable,
           stdout = [[Txt ''An error occurred while saving data: [Errno 13] Permission denied'']]\<rparr>)"
  using save_failure_caught [of "OpenFailed ''[Errno 13] Permission denied''"
      "\<lparr>data = initial_data, storage = Some Unparseable, stdout = []\<rparr>"]
  by (simp add: prod_eq_iff)

subsection \<open>C5: lengths after a sequence of calls\<close>

lemma seq_length_three:
  assumes "data w = dataset_val [(''energy'', e), (''water'', wa), (''waste'', ws)]"
  shows "seq_length w ''energy'' = Some (length e)"
    and "seq_length w ''water'' = Some (length wa)"
    and "seq_length w ''waste'' = Some (length ws)"
    and "categories w = [''energy'', ''water'', ''waste'']"
  using assms by (simp_all add: seq_length_def lookup_def dataset_val_def categories_def)

lemma length_entries_for:
  "length (entries_for c calls) = length (filter (\<lambda>call. fst (snd call) = c) calls)"
  by (simp add: entries_for_def)

lemma entries_for_other:
  "c \<noteq> c' \<Longrightarrow> entries_for c' (calls @ [(now, c, a)]) = entries_for c' calls"
  by (simp add: entries_for_def)

text \<open>
  Claim C5. From the empty three-category Dataset, any sequence of
  \<^verbatim>\<open>log_consumption\<close> calls runs without an exception, and afterwards the length of
  each category's sequence is the number of calls of the sequence that named that
  category. A further call naming a category outside the three changes nothing in
  the Dataset, so no length.
\<close>

theorem append_only:
  assumes "data w = initial_data"
  shows "fst (log_all calls w) = None \<and>
         seq_length (snd (log_all calls w)) ''energy'' =
           Some (length (filter (\<lambda>call. fst (snd call) = ''energy'') calls)) \<and>
         seq_length (snd (log_all calls w)) ''water'' =
           Some (length (filter (\<lambda>call. fst (snd call) = ''water'') calls)) \<and>
         seq_length (snd (log_all calls w)) ''waste'' =
           Some (length (filter (\<lambda>call. fst (snd call) = ''waste'') calls)) \<and>
         categories (snd (log_all calls w)) = [''energy'', ''water'', ''waste''] \<and>
         (c \<notin> {''energy'', ''water'', ''waste''} \<longrightarrow>
            data (snd (log_all (calls @ [(now, c, a)]) w)) = data (snd (log_all calls w)))"
proof -
  from assms have start: "data w = dataset_val [(''energy'', []), (''water'', []), (''waste'', [])]"
    by (simp add: initial_data_dataset)
  note run = log_all_three [OF start, of calls]
  note final = seq_length_three [of "snd (log_all calls w)", OF run [THEN conjunct2, THEN conjunct2]]
  have more: "data (snd (log_all (calls @ [(now, c, a)]) w)) = data (snd (log_all calls w))"
    if "c \<notin> {''energy'', ''water'', ''waste''}"
    using that log_all_three [OF start, of "calls @ [(now, c, a)]"] run
    by (simp add: entries_for_other)
  from run final more show ?thesis
    by (simp add: length_entries_for)
qed

theorem append_only_witness:
  "seq_length (snd (log_all
      [(\<lparr>year = 2024, month = 5, day = 17\<rparr>, ''energy'', 40),
       (\<lparr>year = 2024, month = 5, day = 17\<rparr>, ''gas'', 5),
       (\<lparr>year = 2024, month = 5, day = 18\<rparr>, ''energy'', 70)]
      \<lparr>data = initial_data, storage = None, stdout = []\<rparr>)) ''energy'' = Some 2 \<and>
   seq_length (snd (log_all
      [(\<lparr>year = 2024, month = 5, day = 17\<rparr>, ''energy'', 40),
       (\<lparr>year = 2024, month = 5, day = 17\<rparr>, ''gas'', 5),
       (\<lparr>year = 2024, month = 5, day = 18\<rparr>, ''energy'', 70)]
      \<lparr>data = initial_data, storage = None, stdout = []\<rparr>)) ''water'' = Some 0"
  using append_only [of "\<lparr>data = initial_data, storage = None, stdout = []\<rparr>"
      "[(\<lparr>year = 2024, month = 5, day = 17\<rparr>, ''energy'', 40),
       (\<lparr>year = 2024, month = 5, day = 17\<rparr>, ''gas'', 5),
       (\<lparr>year = 2024, month = 5, day = 18\<rparr>, ''energy'', 70)]" "''gas''"
      "\<lparr>year = 2024, month = 5, day = 17\<rparr>" 5]
  by simp

subsection \<open>What the other methods change\<close>

lemma load_data_storage: "storage (snd (load_data w)) = storage w"
  by (simp add: load_data_def print_def split: option.split contents.split)

lemma init_storage: "storage (snd (init w)) = storage w"
  by (simp add: init_def load_data_storage)

lemma load_data_fallback:
  assumes "storage w = None \<or> storage w = Some Unparseable"
  shows "fst (load_data w) = None" and "data (snd (load_data w)) = data w"
  using assms by (auto simp: load_data_def print_def)

lemma load_data_document:
  assumes "storage w = Some (Document v)"
  shows "fst (load_data w) = None" and "data (snd (load_data w)) = v"
  using assms by (simp_all add: load_data_def print_def)

lemma save_data_data: "data (snd (save_data fault w)) = data w"
proof (cases fault)
  case None
  then show ?thesis by (simp add: save_data_def print_def)
next
  case (Some f)
  then show ?thesis by (cases f) (simp_all add: save_data_def print_def)
qed

lemma save_data_written:
  "fst (save_data None w) = None \<and> storage (snd (save_data None w)) = Some (Document (data w))"
  by (simp add: save_data_def print_def)

subsection \<open>C1: saving and loading again\<close>

text \<open>
  Claim C1. Take the Dataset that any sequence of \<^verbatim>\<open>log_consumption\<close> calls builds
  from the empty three-category Dataset, and save it with a \<^verbatim>\<open>save_data\<close> that meets
  no I/O error. Then any store whose file is the file that was written (a store of a
  new process: what it holds in memory and what it has printed are arbitrary) gets an
  equal Dataset from \<^verbatim>\<open>load_data\<close>, and so does a tracker newly constructed over that
  file: the same keys in the same order and under each key the same value, hence the
  same records with the same dates and amounts in the same order. None of the calls
  raises.
\<close>

theorem save_load_roundtrip:
  assumes "data w = initial_data"
    and "storage fresh = storage (snd (save_data None (snd (log_all calls w))))"
  shows "fst (save_data None (snd (log_all calls w))) = None \<and>
         fst (load_data fresh) = None \<and>
         data (snd (load_data fresh)) = data (snd (log_all calls w)) \<and>
         fst (init fresh) = None \<and>
         data (snd (init fresh)) = data (snd (log_all calls w)) \<and>
         categories (snd (init fresh)) = [''energy'', ''water'', ''waste''] \<and>
         lookup (snd (init fresh)) k = lookup (snd (log_all calls w)) k \<and>
         data (snd (log_all calls w)) =
           dataset_val [(''energy'', entries_for ''energy'' calls),
                        (''water'', entries_for ''water'' calls),
                        (''waste'', entries_for ''waste'' calls)]"
proof -
  let ?w1 = "snd (log_all calls w)"
  from assms(1) have start:
    "data w = dataset_val [(''energy'', []), (''water'', []), (''waste'', [])]"
    by (simp add: initial_data_dataset)
  have built: "data ?w1 = dataset_val [(''energy'', entries_for ''energy'' calls),
                        (''water'', entries_for ''water'' calls),
                        (''waste'', entries_for ''waste'' calls)]"
    using log_all_three [OF start, of calls] by simp
  have on_disk: "storage fresh = Some (Document (data ?w1))"
    using assms(2) by (simp add: save_data_written)
  then have again: "storage (fresh\<lparr>data := initial_data\<rparr>) = Some (Document (data ?w1))"
    by simp
  have loaded: "fst (load_data fresh) = None" "data (snd (load_data fresh)) = data ?w1"
    by (rule load_data_document [OF on_disk])+
  have constructed: "fst (init fresh) = None" "data (snd (init fresh)) = data ?w1"
    unfolding init_def by (rule load_data_document [OF again])+
  have keys: "categories (snd (init fresh)) = [''energy'', ''water'', ''waste'']"
    by (rule seq_length_three(4) [of "snd (init fresh)", OF constructed(2) [unfolded built]])
  have under: "lookup (snd (init fresh)) k = lookup ?w1 k"
    by (simp add: lookup_def constructed(2))
  from built loaded constructed keys under save_data_written [of ?w1] show ?thesis by simp
qed

theorem save_load_roundtrip_witness:
  "data (snd (init
      \<lparr>data = PNone,
       storage = storage (snd (save_data None (snd (log_all
          [(\<lparr>year = 2024, month = 5, day = 17\<rparr>, ''energy'', 40),
           (\<lparr>year = 2024, month = 5, day = 18\<rparr>, ''energy'', 70)]
          \<lparr>data = initial_data, storage = Some Unparseable, stdout = []\<rparr>)))),
       stdout = []\<rparr>)) =
   PDict [(''energy'', PList [PDict [(''date'', PStr ''2024-05-17''), (''amount'', PNum 40)],
                              PDict [(''date'', PStr ''2024-05-18''), (''amount'', PNum 70)]]),
          (''water'', PList []), (''waste'', PList [])]"
  using save_load_roundtrip [of "\<lparr>data = initial_data, storage = Some Unparseable, stdout = []\<rparr>"
      "\<lparr>data = PNone,
       storage = storage (snd (save_data None (snd (log_all
          [(\<lparr>year = 2024, month = 5, day = 17\<rparr>, ''energy'', 40),
           (\<lparr>year = 2024, month = 5, day = 18\<rparr>, ''energy'', 70)]
          \<lparr>data = initial_data, storage = Some Unparseable, stdout = []\<rparr>)))),
       stdout = []\<rparr>"
      "[(\<lparr>year = 2024, month = 5, day = 17\<rparr>, ''energy'', 40),
       (\<lparr>year = 2024, month = 5, day = 18\<rparr>, ''energy'', 70)]" "''energy''"]
  by (simp add: dataset_val_def entries_for_def entry_val_def strftime_Ymd_def char_eval)

subsection \<open>C3: the totals of generate_report\<close>

lemma amounts_of_entries: "amounts_of (map entry_val es) = Inr (map snd es)"
  by (induction es) (simp_all add: entry_val_def)

lemma sum_amounts_entries:
  "sum_amounts float_sum (PList (map entry_val es)) = Inr (py_sum float_sum (map snd es))"
  by (simp add: sum_amounts_def amounts_of_entries)

lemma provide_recommendations_printed:
  "provide_recommendations c t w =
     (None, w\<lparr>stdout := stdout w @ printed (provide_recommendations c t)\<rparr>)"
  by (simp add: provide_recommendations_def printed_def print_def)

lemma report_items_dataset:
  "report_items float_sum (map (\<lambda>kv. (fst kv, PList (map entry_val (snd kv)))) ds) w =
     (None, w\<lparr>stdout := stdout w @ report_of_totals (spec_totals float_sum ds)\<rparr>)"
proof (induction ds arbitrary: w)
  case Nil
  show ?case by (simp add: report_of_totals_def spec_totals_def)
next
  case (Cons kv ds)
  let ?t = "py_sum float_sum (map snd (snd kv))"
  let ?w1 = "print [Txt (capitalize (fst kv) @ '': Total consumption = ''), Num ?t] w"
  have step: "provide_recommendations (fst kv) ?t ?w1 =
      (None, ?w1\<lparr>stdout := stdout ?w1 @ printed (provide_recommendations (fst kv) ?t)\<rparr>)"
    by (rule provide_recommendations_printed)
  have unfold: "report_of_totals (spec_totals float_sum (kv # ds)) =
      ([Txt (capitalize (fst kv) @ '': Total consumption = ''), Num ?t]
        # printed (provide_recommendations (fst kv) ?t))
      @ report_of_totals (spec_totals float_sum ds)"
    by (simp add: report_of_totals_def spec_totals_def)
  show ?case
    by (simp add: sum_amounts_entries step Cons.IH unfold) (simp add: print_def)
qed

text \<open>
  Claim C3. For a Dataset (categories holding sequences of dated amounts),
  \<^verbatim>\<open>generate_report\<close> raises nothing, changes neither \<^verbatim>\<open>self.data\<close> nor the file,
  and prints, after the header, one total per category in the Dataset's key order.
  The total of a category is the sum of the amounts of that category's records, all
  of them and in their order, as Python's \<^verbatim>\<open>sum\<close> adds numbers; it is 0 for an
  empty sequence, and it is the exact sum wherever that addition is exact. The output
  is a function of the Dataset (and of the interpreter's addition) alone.
\<close>

theorem report_totals:
  "sum_amounts float_sum (PList (map entry_val es)) = Inr (py_sum float_sum (map snd es)) \<and>
   sum_amounts float_sum (PList []) = Inr 0 \<and>
   (float_sum (map snd es) = sum_list (map snd es) \<longrightarrow>
      sum_amounts float_sum (PList (map entry_val es)) = Inr (sum_list (map snd es))) \<and>
   (data w = dataset_val ds \<longrightarrow>
      generate_report float_sum w =
        (None, w\<lparr>stdout := stdout w
                  @ [[Txt ([CHR 0x0A] @ ''--- Consumption Report ---'')]]
                  @ report_of_totals (spec_totals float_sum ds)\<rparr>) \<and>
      map fst (spec_totals float_sum ds) = categories w)"
proof -
  have empty: "sum_amounts float_sum (PList []) = Inr 0"
    by (simp add: sum_amounts_def py_sum_def)
  have exact: "sum_amounts float_sum (PList (map entry_val es)) = Inr (sum_list (map snd es))"
    if "float_sum (map snd es) = sum_list (map snd es)"
  proof -
    from that have "py_sum float_sum (map snd es) = sum_list (map snd es)"
      by (cases "es = []") (simp_all add: py_sum_def)
    then show ?thesis by (simp add: sum_amounts_entries)
  qed
  have report: "generate_report float_sum w =
        (None, w\<lparr>stdout := stdout w
                  @ [[Txt ([CHR 0x0A] @ ''--- Consumption Report ---'')]]
                  @ report_of_totals (spec_totals float_sum ds)\<rparr>)"
    and keys: "map fst (spec_totals float_sum ds) = categories w"
    if "data w = dataset_val ds"
    using that
    by (simp_all add: generate_report_def dataset_val_def print_def report_items_dataset
        spec_totals_def categories_def comp_def)
  from empty exact report keys show ?thesis
    by (simp add: sum_amounts_entries)
qed

text \<open>
  Two runs of the report. In the first the amounts are 40 and 70, which floats add
  exactly. In the second they are the floats written \<^verbatim>\<open>99.9\<close> and \<^verbatim>\<open>0.1\<close>, whose
  exact sum is above 100 and whose float sum is 100: the total printed is 100 and the
  line after it is the within-limits one.
\<close>

theorem report_totals_witness:
  "generate_report sum_list
     \<lparr>data = dataset_val [(''energy'', [(''2024-05-17'', 40), (''2024-05-18'', 70)]),
                          (''water'', [])],
      storage = None, stdout = []\<rparr> =
   (None,
    \<lparr>data = dataset_val [(''energy'', [(''2024-05-17'', 40), (''2024-05-18'', 70)]),
                          (''water'', [])],
      storage = None,
      stdout =
        [[Txt ([CHR 0x0A] @ ''--- Consumption Report ---'')],
         [Txt ''Energy: Total consumption = '', Num 110],
         [Txt ''Recommendation for energy: Consider using energy-efficient appliances or LED lighting.''],
         [Txt ''Water: Total consumption = '', Num 0],
         [Txt ''Water consumption is within acceptable limits.'']]\<rparr>) \<and>
   stdout (snd (generate_report (\<lambda>xs. if 100 < sum_list xs \<and> sum_list xs < 101 then 100 else sum_list xs)
     \<lparr>data = dataset_val [(''energy'',
         [(''2024-05-17'', 3514918771674317 / 35184372088832),
          (''2024-05-17'', 3602879701896397 / 36028797018963968)])],
      storage = None, stdout = []\<rparr>)) =
     [[Txt ([CHR 0x0A] @ ''--- Consumption Report ---'')],
      [Txt ''Energy: Total consumption = '', Num 100],
      [Txt ''Energy consumption is within acceptable limits.'']]"
  using report_totals [of sum_list "[]"
      "\<lparr>data = dataset_val [(''energy'', [(''2024-05-17'', 40), (''2024-05-18'', 70)]),
                          (''water'', [])],
      storage = None, stdout = []\<rparr>"
      "[(''energy'', [(''2024-05-17'', 40), (''2024-05-18'', 70)]), (''water'', [])]"]
    report_totals [of "\<lambda>xs. if 100 < sum_list xs \<and> sum_list xs < 101 then 100 else sum_list xs" "[]"
      "\<lparr>data = dataset_val [(''energy'',
         [(''2024-05-17'', 3514918771674317 / 35184372088832),
          (''2024-05-17'', 3602879701896397 / 36028797018963968)])],
      storage = None, stdout = []\<rparr>"
      "[(''energy'',
         [(''2024-05-17'', 3514918771674317 / 35184372088832),
          (''2024-05-17'', 3602879701896397 / 36028797018963968)])]"]
  by (simp add: report_of_totals_def spec_totals_def printed_def provide_recommendations_def
      print_def recommendations_def char_eval py_sum_def)

subsection \<open>What generate_report changes\<close>

lemma report_items_data:
  "data (snd (report_items float_sum kvs w)) = data w \<and>
   storage (snd (report_items float_sum kvs w)) = storage w"
proof (induction kvs arbitrary: w)
  case Nil
  show ?case by simp
next
  case (Cons kv kvs)
  obtain k records where kv: "kv = (k, records)" by (cases kv)
  show ?case
  proof (cases "sum_amounts float_sum records")
    case (Inl e)
    then show ?thesis by (simp add: kv)
  next
    case (Inr t)
    then show ?thesis
      by (simp add: kv provide_recommendations_printed Cons.IH) (simp add: print_def)
  qed
qed

lemma generate_report_data:
  "data (snd (generate_report float_sum w)) = data w \<and>
   storage (snd (generate_report float_sum w)) = storage w"
proof (cases "data w")
  case (PDict kvs)
  then show ?thesis
    by (simp add: generate_report_def Let_def report_items_data print_def)
qed (simp_all add: generate_report_def print_def)

subsection \<open>C2: the keys of the Dataset\<close>

text \<open>
  Claim C2 says that the three keys are present after every operation, load included,
  and that no later operation modifies a key that came with loaded data. Both fail on
  the code. \<^verbatim>\<open>load_data\<close> takes a parsed file as it is, so a tracker constructed over
  the file \<^verbatim>\<open>{"energy": []}\<close> has no key \<^verbatim>\<open>water\<close>; and \<^verbatim>\<open>log_consumption\<close> appends
  to whatever key it is given, so over a file that also has a key \<^verbatim>\<open>gas\<close> a call
  naming \<^verbatim>\<open>gas\<close> changes that key's sequence.
\<close>

theorem keys_after_load_counterexample:
  "''water'' \<notin> set (categories (snd (init
      \<lparr>data = PNone, storage = Some (Document (PDict [(''energy'', PList [])])), stdout = []\<rparr>))) \<and>
   lookup (snd (log_consumption \<lparr>year = 2024, month = 5, day = 17\<rparr> ''gas'' 5 (snd (init
      \<lparr>data = PNone,
       storage = Some (Document (PDict [(''energy'', PList []), (''water'', PList []),
                                        (''waste'', PList []), (''gas'', PList [])])),
       stdout = []\<rparr>)))) ''gas''
   \<noteq> lookup (snd (init
      \<lparr>data = PNone,
       storage = Some (Document (PDict [(''energy'', PList []), (''water'', PList []),
                                        (''waste'', PList []), (''gas'', PList [])])),
       stdout = []\<rparr>)) ''gas''"
  by (simp add: init_def load_data_def print_def categories_def lookup_def log_consumption_def
      dict_get_def Let_def)

text \<open>
  Claim C2, amended. The Dataset a constructor sets has exactly the three keys.
  \<^verbatim>\<open>log_consumption\<close>, \<^verbatim>\<open>generate_report\<close> and \<^verbatim>\<open>save_data\<close> never add, drop or
  reorder a key, and \<^verbatim>\<open>load_data\<close> over a missing or unparseable file keeps the
  Dataset, so under these the three keys stay. \<^verbatim>\<open>load_data\<close> over a parsed file
  replaces the Dataset by the file's value, whatever its keys. The value under a key
  is changed by \<^verbatim>\<open>log_consumption\<close> only when the call names that key, and never by
  \<^verbatim>\<open>generate_report\<close> or \<^verbatim>\<open>save_data\<close>.
\<close>

theorem keys_kept:
  "categories (w\<lparr>data := initial_data\<rparr>) = [''energy'', ''water'', ''waste''] \<and>
   categories (snd (log_consumption now c a w)) = categories w \<and>
   (k \<noteq> c \<longrightarrow> lookup (snd (log_consumption now c a w)) k = lookup w k) \<and>
   data (snd (generate_report float_sum w)) = data w \<and>
   data (snd (save_data fault w)) = data w \<and>
   (storage w = None \<or> storage w = Some Unparseable \<longrightarrow>
      data (snd (load_data w)) = data w \<and> data (snd (init w)) = initial_data) \<and>
   (storage w = Some (Document v) \<longrightarrow>
      data (snd (load_data w)) = v \<and> data (snd (init w)) = v)"
proof -
  have fresh: "categories (w\<lparr>data := initial_data\<rparr>) = [''energy'', ''water'', ''waste'']"
    by (simp add: categories_def initial_data_def)
  have fallback: "data (snd (load_data w)) = data w \<and> data (snd (init w)) = initial_data"
    if "storage w = None \<or> storage w = Some Unparseable"
    using that load_data_fallback(2) [of w] load_data_fallback(2) [of "w\<lparr>data := initial_data\<rparr>"]
    by (simp add: init_def)
  have loaded: "data (snd (load_data w)) = v \<and> data (snd (init w)) = v"
    if "storage w = Some (Document v)"
    using that load_data_document(2) [of w v] load_data_document(2) [of "w\<lparr>data := initial_data\<rparr>" v]
    by (simp add: init_def)
  from fresh fallback loaded show ?thesis
    by (simp add: log_consumption_categories log_consumption_other_key generate_report_data
        save_data_data)
qed

theorem keys_kept_witness:
  "categories (snd (log_consumption \<lparr>year = 2024, month = 5, day = 17\<rparr> ''water'' 12
      \<lparr>data = initial_data, storage = None, stdout = []\<rparr>)) = [''energy'', ''water'', ''waste''] \<and>
   lookup (snd (log_consumption \<lparr>year = 2024, month = 5, day = 17\<rparr> ''water'' 12
      \<lparr>data = initial_data, storage = None, stdout = []\<rparr>)) ''waste'' = Some (PList []) \<and>
   data (snd (init \<lparr>data = PNone, storage = None, stdout = []\<rparr>)) = initial_data \<and>
   data (snd (init \<lparr>data = PNone, storage = Some (Document (PDict [(''gas'', PList [])])),
                    stdout = []\<rparr>)) = PDict [(''gas'', PList [])]"
  using keys_kept [of "\<lparr>data = initial_data, storage = None, stdout = []\<rparr>"
      "\<lparr>year = 2024, month = 5, day = 17\<rparr>" "''water''" 12 "''waste''" sum_list None PNone]
    keys_kept [of "\<lparr>data = PNone, storage = None, stdout = []\<rparr>"
      "\<lparr>year = 2024, month = 5, day = 17\<rparr>" "''water''" 12 "''waste''" sum_list None PNone]
    keys_kept [of "\<lparr>data = PNone, storage = Some (Document (PDict [(''gas'', PList [])])),
                    stdout = []\<rparr>"
      "\<lparr>year = 2024, month = 5, day = 17\<rparr>" "''water''" 12 "''waste''" sum_list None
      "PDict [(''gas'', PList [])]"]
  by (simp add: categories_def lookup_def initial_data_def)

subsection \<open>C6: loading when there is nothing to load\<close>

lemma init_repeated:
  "storage (((\<lambda>w. snd (init w)) ^^ n) w) = storage w"
  by (induction n) (simp_all add: init_storage)

lemma init_fallback:
  assumes "storage w = None \<or> storage w = Some Unparseable"
  shows "fst (init w) = None" and "data (snd (init w)) = initial_data"
  using assms load_data_fallback [of "w\<lparr>data := initial_data\<rparr>"]
  by (simp_all add: init_def)

text \<open>
  Claim C6. Loading is what the constructor does: \<^verbatim>\<open>__init__\<close> is the only caller of
  \<^verbatim>\<open>load_data\<close>, and it sets the empty three-category Dataset just before the call.
  Over a missing file, or over one that \<^verbatim>\<open>json.load\<close> cannot parse, it returns
  normally, prints the one message of that case, leaves the file as it was, and leaves
  the Dataset equal to the empty Dataset with its three categories, each an empty
  sequence. This holds whatever was in memory before, and however many times the
  load is repeated.
\<close>

theorem load_fallback:
  assumes "storage w = None \<or> storage w = Some Unparseable"
  shows "fst (init w) = None \<and>
         data (snd (init w)) = initial_data \<and>
         categories (snd (init w)) = [''energy'', ''water'', ''waste''] \<and>
         seq_length (snd (init w)) ''energy'' = Some 0 \<and>
         seq_length (snd (init w)) ''water'' = Some 0 \<and>
         seq_length (snd (init w)) ''waste'' = Some 0 \<and>
         storage (snd (init w)) = storage w \<and>
         stdout (snd (init w)) =
           stdout w @ [[Txt (if storage w = None
                             then ''No existing data found, starting with an empty dataset.''
                             else ''Error decoding JSON file, starting with an empty dataset.'')]] \<and>
         data (((\<lambda>w. snd (init w)) ^^ Suc n) w) = initial_data"
proof -
  let ?again = "((\<lambda>w. snd (init w)) ^^ n) w"
  have "storage ?again = None \<or> storage ?again = Some Unparseable"
    using assms by (simp add: init_repeated)
  then have many: "data (((\<lambda>w. snd (init w)) ^^ Suc n) w) = initial_data"
    using init_fallback(2) [of ?again] by simp
  note once = init_fallback [OF assms]
  have shape: "data (snd (init w)) = dataset_val [(''energy'', []), (''water'', []), (''waste'', [])]"
    using once(2) by (simp add: initial_data_dataset)
  have out: "stdout (snd (init w)) =
           stdout w @ [[Txt (if storage w = None
                             then ''No existing data found, starting with an empty dataset.''
                             else ''Error decoding JSON file, starting with an empty dataset.'')]]"
    using assms by (auto simp: init_def load_data_def print_def)
  from many once out seq_length_three [OF shape] show ?thesis
    by (simp add: init_storage)
qed

theorem load_fallback_witness:
  "data (snd (init \<lparr>data = PDict [(''energy'', PList [PNum 5])], storage = Some Unparseable,
                    stdout = []\<rparr>)) = initial_data \<and>
   stdout (snd (init \<lparr>data = PDict [(''energy'', PList [PNum 5])], storage = Some Unparseable,
                      stdout = []\<rparr>)) =
     [[Txt ''Error decoding JSON file, starting with an empty dataset.'']] \<and>
   data (snd (init (snd (init (snd (init
      \<lparr>data = PNone, storage = None, stdout = []\<rparr>)))))) = initial_data"
  using load_fallback [of "\<lparr>data = PDict [(''energy'', PList [PNum 5])],
                            storage = Some Unparseable, stdout = []\<rparr>" 2]
    load_fallback [of "\<lparr>data = PNone, storage = None, stdout = []\<rparr>" 2]
  by (simp add: numeral_2_eq_2)

end
